theory Spec2Isabelle
  imports Complex_Main
begin

section \<open>Scene graph data model (types module)\<close>

text \<open>
  The enumeration \<open>GeometryType\<close>, the interfaces \<open>PBRMaterial\<close> and \<open>SceneNode\<close>.
  A TypeScript \<open>number\<close> is modelled as a real: rounding, NaN and the infinities of
  IEEE doubles are outside the model. A three-element tuple is a triple. An optional
  field is an \<open>option\<close>. The field \<open>id\<close> of a node is \<open>node_id\<close> here.
\<close>

datatype GeometryType =
    BOX | SPHERE | CYLINDER | CONE | TORUS
  | ICOSAHEDRON | DODECAHEDRON | TETRAHEDRON
  | EXTRUSION | WEDGE
  | PLANE
  | WALL | ROOF | FLOOR | WINDOW | PILLAR | STAIRS
  | TREE_COMPLEX

type_synonym vec3 = "real \<times> real \<times> real"

record PBRMaterial =
  color :: string
  roughness :: real
  metalness :: real
  opacity :: "real option"
  transparent :: "bool option"
  emissive :: "string option"
  emissiveIntensity :: "real option"
  wireframe :: "bool option"

record SceneNode =
  node_id :: string
  name :: string
  group :: string
  type :: GeometryType
  position :: vec3
  rotation :: vec3
  scale :: vec3
  segments :: "int option"
  material :: PBRMaterial
  shapePath :: "(real list) list option"

section \<open>Geometry of one node (addGeometry in handleExport)\<close>

text \<open>The initial value of \<open>v\<close>: the eight corners of the cube.\<close>

definition cube_vertices :: "vec3 list" where
  "cube_vertices =
     [(-1, -1, 1), (1, -1, 1), (-1, 1, 1), (1, 1, 1),
      (-1, -1, -1), (1, -1, -1), (-1, 1, -1), (1, 1, -1)]"

definition quad_vertices :: "vec3 list" where
  "quad_vertices = [(-1, -1, 0), (1, -1, 0), (-1, 1, 0), (1, 1, 0)]"

definition is_quad_type :: "GeometryType \<Rightarrow> bool" where
  "is_quad_type ty \<longleftrightarrow> ty = PLANE \<or> ty = WINDOW"

definition local_vertices :: "GeometryType \<Rightarrow> vec3 list" where
  "local_vertices ty = (if is_quad_type ty then quad_vertices else cube_vertices)"

text \<open>\<open>v.map(p => [p[0]*scl[0]*0.5, p[1]*scl[1]*0.5, p[2]*scl[2]*0.5])\<close>\<close>

fun scale_step :: "vec3 \<Rightarrow> vec3 \<Rightarrow> vec3" where
  "scale_step (s0, s1, s2) (x, y, z) = (x * s0 * 0.5, y * s1 * 0.5, z * s2 * 0.5)"

text \<open>
  The body of the second \<open>map\<close>, with the six values \<open>cx, sx, cy, sy, cz, sz\<close> it reads.
  The three pairs of assignments are kept in the order of the source: each pair reads
  the coordinates the previous pair has written.
\<close>

definition rotate_cs :: "real \<Rightarrow> real \<Rightarrow> real \<Rightarrow> real \<Rightarrow> real \<Rightarrow> real \<Rightarrow> vec3 \<Rightarrow> vec3" where
  "rotate_cs cx sx cy sy cz sz p =
     (case p of (x, y, z) \<Rightarrow>
        let y1 = y * cx - z * sx; z1 = y * sx + z * cx;
            x1 = x * cy + z1 * sy; z2 = - x * sy + z1 * cy;
            x2 = x1 * cz - y1 * sz; y2 = x1 * sz + y1 * cz
        in (x2, y2, z2))"

fun rotate_step :: "vec3 \<Rightarrow> vec3 \<Rightarrow> vec3" where
  "rotate_step (r0, r1, r2) p =
     rotate_cs (cos r0) (sin r0) (cos r1) (sin r1) (cos r2) (sin r2) p"

text \<open>\<open>v.map(p => [p[0] + pos[0], p[1] + pos[1], p[2] + pos[2]])\<close>\<close>

fun translate_step :: "vec3 \<Rightarrow> vec3 \<Rightarrow> vec3" where
  "translate_step (p0, p1, p2) (x, y, z) = (x + p0, y + p1, z + p2)"

text \<open>The value of \<open>v\<close> after the three maps: the vertices that are written out.\<close>

definition world_vertices :: "SceneNode \<Rightarrow> vec3 list" where
  "world_vertices node =
     map (translate_step (position node))
       (map (rotate_step (rotation node))
         (map (scale_step (scale node)) (local_vertices (type node))))"

text \<open>
  The faces as lists of vertex indices, for the value \<open>o\<close> of the running offset:
  the single quad of the first branch, the array \<open>faces\<close> of the second.
\<close>

definition quad_face :: "nat \<Rightarrow> nat list" where
  "quad_face o' = [o', o' + 1, o' + 3, o' + 2]"

definition cube_faces :: "nat \<Rightarrow> nat list list" where
  "cube_faces o' =
     [[o', o' + 1, o' + 3, o' + 2], [o' + 2, o' + 3, o' + 7, o' + 6],
      [o' + 6, o' + 7, o' + 5, o' + 4], [o' + 4, o' + 5, o' + 1, o' + 0],
      [o' + 2, o' + 6, o' + 4, o' + 0], [o' + 7, o' + 3, o' + 1, o' + 5]]"

text \<open>The branch on \<open>v.length === 4\<close>: the faces written, and the new offset.\<close>

definition node_faces :: "SceneNode \<Rightarrow> nat \<Rightarrow> nat list list" where
  "node_faces node o' =
     (if length (world_vertices node) = 4 then [quad_face o'] else cube_faces o')"

definition next_offset :: "SceneNode \<Rightarrow> nat \<Rightarrow> nat" where
  "next_offset node vertexOffset =
     (if length (world_vertices node) = 4 then vertexOffset + 4 else vertexOffset + 8)"

subsection \<open>The transform as the specification words it\<close>

text \<open>
  The three elementary rotations and the two other steps, written from the
  specification's wording, to be compared with the steps of the source.
\<close>

fun spec_scale :: "vec3 \<Rightarrow> vec3 \<Rightarrow> vec3" where
  "spec_scale (s0, s1, s2) (x, y, z) = (x * (s0 * 0.5), y * (s1 * 0.5), z * (s2 * 0.5))"

fun spec_rot_x :: "real \<Rightarrow> vec3 \<Rightarrow> vec3" where
  "spec_rot_x a (x, y, z) = (x, y * cos a - z * sin a, y * sin a + z * cos a)"

fun spec_rot_y :: "real \<Rightarrow> vec3 \<Rightarrow> vec3" where
  "spec_rot_y a (x, y, z) = (x * cos a + z * sin a, y, - x * sin a + z * cos a)"

fun spec_rot_z :: "real \<Rightarrow> vec3 \<Rightarrow> vec3" where
  "spec_rot_z a (x, y, z) = (x * cos a - y * sin a, x * sin a + y * cos a, z)"

fun spec_translate :: "vec3 \<Rightarrow> vec3 \<Rightarrow> vec3" where
  "spec_translate (p0, p1, p2) (x, y, z) = (x + p0, y + p1, z + p2)"

definition spec_transform :: "vec3 \<Rightarrow> vec3 \<Rightarrow> vec3 \<Rightarrow> vec3 \<Rightarrow> vec3" where
  "spec_transform scl rot pos p =
     (case rot of (r0, r1, r2) \<Rightarrow>
        spec_translate pos (spec_rot_z r2 (spec_rot_y r1 (spec_rot_x r0 (spec_scale scl p)))))"

section \<open>Text of a document (handleExport)\<close>

text \<open>
  A number in a template literal: the decimal digits of a non-negative integer
  (\<open>idx\<close>, the vertex offset and the face indices are such integers).
\<close>

fun show_nat :: "nat \<Rightarrow> string" where
  "show_nat n =
     (if n < 10 then [''0123456789'' ! n]
      else show_nat (n div 10) @ [''0123456789'' ! (n mod 10)])"

declare show_nat.simps [simp del]

text \<open>
  \<open>toFixed(4)\<close> of the language, on reals, in the steps of its definition: the sign is
  split off, \<open>n\<close> is the integer nearest to \<open>x * 10^4\<close> (the larger of two), its digits
  are padded with zeros to five and the point is put before the last four. The
  exponent notation the language uses from \<open>10^21\<close> on is not modelled, and a double
  that is not the real it stands for may round to another last digit. No property below
  depends on the digits this function gives.
\<close>

definition toFixed4 :: "real \<Rightarrow> string" where
  "toFixed4 x =
     (let s = (if x < 0 then ''-'' else []);
          a = \<bar>x\<bar>;
          n = nat \<lfloor>a * 10000 + 1 / 2\<rfloor>;
          m = show_nat n;
          m' = (if length m \<le> 4 then replicate (5 - length m) (CHR ''0'') @ m else m);
          k = length m'
      in s @ take (k - 4) m' @ ''.'' @ drop (k - 4) m')"

definition NL :: string where
  "NL = [CHR 0x0A]"

text \<open>
  \<open>String.prototype.replace\<close> with a string pattern: the first occurrence of the
  pattern is replaced, wherever it stands, and a string without the pattern is returned
  as it is. (The replacement \<open>'Mat_'\<close> has no \<open>$\<close>, so no substitution pattern applies.)
\<close>

fun js_replace :: "string \<Rightarrow> string \<Rightarrow> string \<Rightarrow> string" where
  "js_replace pat rep [] = (if pat = [] then rep else [])"
| "js_replace pat rep (c # cs) =
     (if take (length pat) (c # cs) = pat then rep @ drop (length pat) (c # cs)
      else c # js_replace pat rep cs)"

text \<open>\<open>Array.prototype.join\<close>\<close>

fun join :: "string \<Rightarrow> string list \<Rightarrow> string" where
  "join sep [] = []"
| "join sep [x] = x"
| "join sep (x # y # ys) = x @ sep @ join sep (y # ys)"

definition object_line :: "SceneNode \<Rightarrow> nat \<Rightarrow> string" where
  "object_line node idx = ''o '' @ name node @ ''_'' @ show_nat idx @ NL"

definition material_line :: "SceneNode \<Rightarrow> string" where
  "material_line node = ''usemtl '' @ js_replace ''#'' ''Mat_'' (color (material node)) @ NL"

fun vertex_line :: "vec3 \<Rightarrow> string" where
  "vertex_line (x, y, z) = ''v '' @ toFixed4 x @ '' '' @ toFixed4 y @ '' '' @ toFixed4 z @ NL"

definition face_line :: "nat list \<Rightarrow> string" where
  "face_line f = ''f '' @ join '' '' (map show_nat f) @ NL"

text \<open>
  \<open>addGeometry\<close> on the pair (\<open>objOutput\<close>, \<open>vertexOffset\<close>) it updates. The face line
  of the first branch, a template literal with the four indices, is the text
  \<open>face_line\<close> gives for \<open>quad_face\<close>.
\<close>

definition addGeometry :: "SceneNode \<Rightarrow> string \<times> nat \<Rightarrow> string \<times> nat" where
  "addGeometry node st =
     (case st of (objOutput, vertexOffset) \<Rightarrow>
        let v = world_vertices node;
            out1 = objOutput @ concat (map vertex_line v);
            o' = vertexOffset
        in (out1 @ concat (map face_line (node_faces node o')), next_offset node vertexOffset))"

text \<open>The body of \<open>groupedNodes[groupName].forEach((node, idx) => ...)\<close>.\<close>

definition node_step :: "nat \<Rightarrow> SceneNode \<Rightarrow> string \<times> nat \<Rightarrow> string \<times> nat" where
  "node_step idx node st =
     (case st of (objOutput, vertexOffset) \<Rightarrow>
        case addGeometry node (objOutput @ object_line node idx @ material_line node, vertexOffset)
        of (out2, off2) \<Rightarrow> (out2 @ NL, off2))"

fun export_loop :: "nat \<Rightarrow> SceneNode list \<Rightarrow> string \<times> nat \<Rightarrow> string \<times> nat" where
  "export_loop idx [] st = st"
| "export_loop idx (node # nodes) st = export_loop (Suc idx) nodes (node_step idx node st)"

definition header :: "string \<Rightarrow> string" where
  "header groupName =
     ''# Group: '' @ groupName @ NL @ ''# Exported from Gen-Blender Pro'' @ NL @ NL"

text \<open>
  One group: \<open>objOutput\<close> starts as the header and \<open>vertexOffset\<close> as 1; the result is
  the pair of both after the last node.
\<close>

definition export_group_state :: "string \<Rightarrow> SceneNode list \<Rightarrow> string \<times> nat" where
  "export_group_state groupName nodes = export_loop 0 nodes (header groupName, 1)"

definition export_group :: "string \<Rightarrow> SceneNode list \<Rightarrow> string" where
  "export_group groupName nodes = fst (export_group_state groupName nodes)"

section \<open>Grouping and the export request (handleExport)\<close>

datatype js_error = TypeError | SyntaxError | Error string

definition normalized_group :: "SceneNode \<Rightarrow> string" where
  "normalized_group node = (if group node = [] then ''Ungrouped'' else group node)"

text \<open>
  \<open>groupedNodes\<close> is an object literal \<open>{}\<close>: reading a key it does not own finds the
  members of \<open>Object.prototype\<close>. These are the names of those members.
\<close>

definition Object_prototype_keys :: "string list" where
  "Object_prototype_keys =
     [''constructor'', ''__proto__'', ''hasOwnProperty'', ''isPrototypeOf'',
      ''propertyIsEnumerable'', ''toLocaleString'', ''toString'', ''valueOf'',
      ''__defineGetter__'', ''__defineSetter__'', ''__lookupGetter__'', ''__lookupSetter__'']"

fun push_node :: "string \<Rightarrow> SceneNode \<Rightarrow> (string \<times> SceneNode list) list
    \<Rightarrow> (string \<times> SceneNode list) list" where
  "push_node g node [] = []"
| "push_node g node ((k, ns) # rest) =
     (if k = g then (k, ns @ [node]) # rest else (k, ns) # push_node g node rest)"

text \<open>
  The first \<open>forEach\<close>. The own keys of \<open>groupedNodes\<close> are kept with their arrays, in
  the order they were added. For a group name the object owns, the node is pushed. For
  a name it does not own: a member of \<open>Object.prototype\<close> is read, it is truthy, so no
  array is stored, and \<open>push\<close> of it is not a function: a TypeError; any other name
  gets a new array.
\<close>

fun group_nodes :: "SceneNode list \<Rightarrow> (string \<times> SceneNode list) list
    \<Rightarrow> js_error + (string \<times> SceneNode list) list" where
  "group_nodes [] groupedNodes = Inr groupedNodes"
| "group_nodes (node # nodes) groupedNodes =
     (let groupName = normalized_group node in
      if groupName \<in> fst ` set groupedNodes
      then group_nodes nodes (push_node groupName node groupedNodes)
      else if groupName \<in> set Object_prototype_keys then Inl TypeError
      else group_nodes nodes (groupedNodes @ [(groupName, [node])]))"

text \<open>
  \<open>targetGroup\<close> is an optional string; it filters when it is truthy, that is given
  and not empty.
\<close>

definition nodesToExport :: "string option \<Rightarrow> SceneNode list \<Rightarrow> SceneNode list" where
  "nodesToExport targetGroup nodes =
     (case targetGroup of
        None \<Rightarrow> nodes
      | Some g \<Rightarrow> if g = [] then nodes else filter (\<lambda>n. normalized_group n = g) nodes)"

text \<open>
  What the request hands over for download: the name of the archive and, for each
  group, the document stored as \<open>groupName.obj\<close> in the folder \<open>groupName\<close>. The
  archive is kept as the map from group name to document.
\<close>

record download =
  download_name :: string
  documents :: "string \<rightharpoonup> string"

definition archive_name :: "string option \<Rightarrow> nat \<Rightarrow> string" where
  "archive_name targetGroup now =
     (case targetGroup of
        None \<Rightarrow> ''Full_Project_'' @ show_nat now @ ''.zip''
      | Some g \<Rightarrow> if g = [] then ''Full_Project_'' @ show_nat now @ ''.zip'' else g @ ''.zip'')"

text \<open>
  \<open>handleExport\<close> on the nodes of the scene, with the value \<open>now\<close> of \<open>Date.now()\<close>.
  \<open>Inl\<close> is the exception it is rejected with, \<open>Inr None\<close> the early return,
  \<open>Inr (Some d)\<close> the download it triggers. (\<open>zip.folder\<close> with a name gives a folder,
  so the second \<open>forEach\<close> skips no group.)
\<close>

definition handleExport :: "nat \<Rightarrow> string option \<Rightarrow> SceneNode list \<Rightarrow> js_error + download option" where
  "handleExport now targetGroup nodes =
     (let toExport = nodesToExport targetGroup nodes in
      if length toExport = 0 then Inr None
      else case group_nodes toExport [] of
             Inl e \<Rightarrow> Inl e
           | Inr groupedNodes \<Rightarrow>
               Inr (Some \<lparr> download_name = archive_name targetGroup now,
                           documents = map_of (map (\<lambda>(g, ns). (g, export_group g ns)) groupedNodes) \<rparr>))"

text \<open>The document of a group in the outcome of an export, if there is one.\<close>

definition document_of :: "js_error + download option \<Rightarrow> string \<Rightarrow> string option" where
  "document_of r g = (case r of Inr (Some d) \<Rightarrow> documents d g | _ \<Rightarrow> None)"

section \<open>The grouping of the Explorer (hierarchy)\<close>

text \<open>
  \<open>[...sceneData.nodes].sort((a, b) => a.name.localeCompare(b.name))\<close>, with the
  comparison of the locale as the parameter \<open>localeCompare\<close>. The sort of the language
  is stable; for a comparison that orders the names it gives what the insertion below
  gives. Whatever the comparison, the result has the nodes of the scene.
\<close>

fun insert_by_name :: "(string \<Rightarrow> string \<Rightarrow> int) \<Rightarrow> SceneNode \<Rightarrow> SceneNode list \<Rightarrow> SceneNode list" where
  "insert_by_name localeCompare x [] = [x]"
| "insert_by_name localeCompare x (y # ys) =
     (if localeCompare (name x) (name y) \<le> 0 then x # y # ys
      else y # insert_by_name localeCompare x ys)"

definition sortedNodes :: "(string \<Rightarrow> string \<Rightarrow> int) \<Rightarrow> SceneNode list \<Rightarrow> SceneNode list" where
  "sortedNodes localeCompare nodes = foldr (insert_by_name localeCompare) nodes []"

text \<open>
  The \<open>useMemo\<close> of the component, run in every render that has a new scene, before
  \<open>handleExport\<close> is created for that render. Its \<open>forEach\<close> fills an object literal
  \<open>groups\<close> by the statements the first \<open>forEach\<close> of \<open>handleExport\<close> has, with the same
  key \<open>node.group || 'Ungrouped'\<close>: it is \<open>group_nodes\<close>, on the sorted nodes. The object
  returned has the keys of \<open>groups\<close>, sorted, with their arrays; it is kept as the map
  from group name to nodes. An exception here ends the render: nothing catches it, and
  no handler of that render exists.
\<close>

definition hierarchy :: "(string \<Rightarrow> string \<Rightarrow> int) \<Rightarrow> SceneNode list
    \<Rightarrow> js_error + (string \<rightharpoonup> SceneNode list)" where
  "hierarchy localeCompare nodes =
     (case group_nodes (sortedNodes localeCompare nodes) [] of
        Inl e \<Rightarrow> Inl e
      | Inr groups \<Rightarrow> Inr (map_of groups))"

section \<open>Ingestion of a generated scene (generateSceneFromPrompt)\<close>

text \<open>
  What \<open>JSON.parse\<close> returns: the cast to \<open>SceneData\<close> checks nothing, so the value is
  kept as it was parsed. An object is the list of its own keys with their values.
\<close>

datatype json =
    JNull | JBool bool | JNum real | JStr string
  | JArr "json list" | JObj "(string \<times> json) list"

text \<open>
  Reading a property by one of the names the source reads (\<open>nodes\<close>, \<open>aiReasoning\<close>,
  \<open>name\<close>: none is an index, \<open>length\<close> or a member of a prototype). \<open>null\<close> has no
  properties: a TypeError. An object gives its own value, or \<open>undefined\<close> (\<open>None\<close>);
  every other value gives \<open>undefined\<close>.
\<close>

fun get_prop :: "json \<Rightarrow> string \<Rightarrow> js_error + json option" where
  "get_prop JNull k = Inl TypeError"
| "get_prop (JObj kvs) k = Inr (map_of kvs k)"
| "get_prop v k = Inr None"

text \<open>Truthiness of a value that may be \<open>undefined\<close>.\<close>

fun truthy :: "json option \<Rightarrow> bool" where
  "truthy None = False"
| "truthy (Some JNull) = False"
| "truthy (Some (JBool b)) = b"
| "truthy (Some (JNum r)) = (r \<noteq> 0)"
| "truthy (Some (JStr s)) = (s \<noteq> [])"
| "truthy (Some v) = True"

text \<open>\<open>indexOf\<close>, \<open>lastIndexOf\<close> of a character (-1 when it is absent) and \<open>substring\<close>.\<close>

fun indexOf :: "char \<Rightarrow> string \<Rightarrow> int" where
  "indexOf c [] = -1"
| "indexOf c (x # xs) =
     (if x = c then 0 else let i = indexOf c xs in if i < 0 then -1 else i + 1)"

definition lastIndexOf :: "char \<Rightarrow> string \<Rightarrow> int" where
  "lastIndexOf c s =
     (let i = indexOf c (rev s) in if i < 0 then -1 else int (length s) - 1 - i)"

text \<open>
  \<open>substring(start, end)\<close>: both arguments are clamped to the string, and swapped
  when the first is the larger.
\<close>

definition substring :: "string \<Rightarrow> int \<Rightarrow> int \<Rightarrow> string" where
  "substring s start end' =
     (let n = int (length s);
          a = min (max start 0) n;
          b = min (max end' 0) n;
          lo = min a b;
          hi = max a b
      in take (nat (hi - lo)) (drop (nat lo) s))"

definition cleanJson :: "string \<Rightarrow> string" where
  "cleanJson jsonText =
     (let jsonStart = indexOf (CHR ''{'') jsonText;
          jsonEnd = lastIndexOf (CHR ''}'') jsonText
      in substring jsonText jsonStart (jsonEnd + 1))"

text \<open>Setting a key of an object: an own key keeps its place, a new one is added.\<close>

fun set_key :: "string \<Rightarrow> json \<Rightarrow> (string \<times> json) list \<Rightarrow> (string \<times> json) list" where
  "set_key k v [] = [(k, v)]"
| "set_key k v ((k', v') # rest) =
     (if k' = k then (k, v) # rest else (k', v') # set_key k v rest)"

text \<open>
  The spread \<open>{...value}\<close>: the own keys of an object, the indices of an array or of a
  string, nothing for the other values.
\<close>

fun spread :: "json \<Rightarrow> (string \<times> json) list" where
  "spread (JObj kvs) = kvs"
| "spread (JArr xs) = zip (map show_nat [0..<length xs]) xs"
| "spread (JStr s) = zip (map show_nat [0..<length s]) (map (\<lambda>c. JStr [c]) s)"
| "spread v = []"

text \<open>
  The callback of \<open>data.nodes.map\<close>. The coercion of \<open>node.name\<close> to a string by \<open>+\<close>
  is the parameter \<open>toStr\<close>, the text \<open>Math.random().toString(36).substr(2, 9)\<close> the
  parameter \<open>suffix\<close>. On \<open>null\<close> the spread is empty and \<open>node.name\<close> throws.
\<close>

definition with_id :: "(json option \<Rightarrow> string) \<Rightarrow> string \<Rightarrow> json \<Rightarrow> js_error + json" where
  "with_id toStr suffix node =
     (case get_prop node ''name'' of
        Inl e \<Rightarrow> Inl e
      | Inr nm \<Rightarrow> Inr (JObj (set_key ''id'' (JStr (toStr nm @ ''_'' @ suffix)) (spread node))))"

fun map_with_ids :: "(json option \<Rightarrow> string) \<Rightarrow> (nat \<Rightarrow> string) \<Rightarrow> nat \<Rightarrow> json list
    \<Rightarrow> js_error + json list" where
  "map_with_ids toStr rnd i [] = Inr []"
| "map_with_ids toStr rnd i (node # nodes) =
     (case with_id toStr (rnd i) node of
        Inl e \<Rightarrow> Inl e
      | Inr node' \<Rightarrow>
          (case map_with_ids toStr rnd (Suc i) nodes of
             Inl e \<Rightarrow> Inl e
           | Inr nodes' \<Rightarrow> Inr (node' # nodes')))"

text \<open>
  \<open>data.nodes.map(...)\<close>: only an array has \<open>map\<close>. On \<open>undefined\<close> and \<open>null\<close> the
  read of \<open>map\<close> throws; on every other value \<open>map\<close> is \<open>undefined\<close> or a parsed value,
  never a function, and the call throws. All of these are TypeErrors.
\<close>

definition nodesWithIds :: "(json option \<Rightarrow> string) \<Rightarrow> (nat \<Rightarrow> string) \<Rightarrow> json option
    \<Rightarrow> js_error + json list" where
  "nodesWithIds toStr rnd nodes =
     (case nodes of
        Some (JArr xs) \<Rightarrow> map_with_ids toStr rnd 0 xs
      | _ \<Rightarrow> Inl TypeError)"

text \<open>
  What the function resolves to: \<open>text\<close>, and \<open>data\<close>, the scene, when there is one.
\<close>

record gen_result =
  result_text :: json
  result_data :: "json option"

text \<open>
  The two texts the function can return of its own. The failure message of the source
  is a Russian sentence; it is kept here in Latin letters, as are the two Russian
  messages of \<open>handleSendMessage\<close> below.
\<close>

definition MSG_ARCHITECTURE :: string where
  "MSG_ARCHITECTURE = ''Architecture calculated.''"

definition MSG_CORE_ERROR :: string where
  "MSG_CORE_ERROR = ''Oshibka vychislenij. Poprobujte uprostit zadachu.''"

text \<open>Sequencing of steps that may throw: the first exception ends the body.\<close>

definition then_do :: "js_error + 'a \<Rightarrow> ('a \<Rightarrow> js_error + 'b) \<Rightarrow> js_error + 'b" where
  "then_do r f = (case r of Inl e \<Rightarrow> Inl e | Inr x \<Rightarrow> f x)"

text \<open>\<open>a || b\<close> for a value \<open>a\<close> that may be \<open>undefined\<close>.\<close>

definition js_or :: "json option \<Rightarrow> json \<Rightarrow> json" where
  "js_or a b = (case a of None \<Rightarrow> b | Some x \<Rightarrow> if truthy (Some x) then x else b)"

text \<open>The statements after \<open>JSON.parse\<close>, on the parsed value \<open>d\<close>.\<close>

definition ingest :: "(json option \<Rightarrow> string) \<Rightarrow> (nat \<Rightarrow> string) \<Rightarrow> json \<Rightarrow> js_error + gen_result" where
  "ingest toStr rnd d =
     then_do (get_prop d ''nodes'') (\<lambda>nodes.
     then_do (nodesWithIds toStr rnd nodes) (\<lambda>ns.
     then_do (get_prop d ''aiReasoning'') (\<lambda>reasoning.
       Inr \<lparr> result_text = js_or reasoning (JStr MSG_ARCHITECTURE),
             result_data = Some (JObj (set_key ''nodes'' (JArr ns) (spread d))) \<rparr>)))"

text \<open>
  The body of the \<open>try\<close>. \<open>api\<close> is what the awaited call of the remote model gives:
  an exception, or \<open>response.text\<close>, which may be \<open>undefined\<close>. \<open>parse\<close> is
  \<open>JSON.parse\<close>, with \<open>None\<close> for its SyntaxError.
\<close>

definition try_generate :: "(string \<Rightarrow> json option) \<Rightarrow> (json option \<Rightarrow> string) \<Rightarrow> (nat \<Rightarrow> string)
    \<Rightarrow> js_error + string option \<Rightarrow> js_error + gen_result" where
  "try_generate parse toStr rnd api =
     (case api of
        Inl e \<Rightarrow> Inl e
      | Inr None \<Rightarrow> Inl (Error ''Empty response'')
      | Inr (Some jsonText) \<Rightarrow>
          (if jsonText = [] then Inl (Error ''Empty response'')
           else (case parse (cleanJson jsonText) of
                   None \<Rightarrow> Inl SyntaxError
                 | Some d \<Rightarrow> ingest toStr rnd d)))"

text \<open>The \<open>catch\<close> turns every exception of the body into the failure message.\<close>

definition generateSceneFromPrompt :: "(string \<Rightarrow> json option) \<Rightarrow> (json option \<Rightarrow> string)
    \<Rightarrow> (nat \<Rightarrow> string) \<Rightarrow> js_error + string option \<Rightarrow> gen_result" where
  "generateSceneFromPrompt parse toStr rnd api =
     (case try_generate parse toStr rnd api of
        Inl e \<Rightarrow> \<lparr> result_text = JStr MSG_CORE_ERROR, result_data = None \<rparr>
      | Inr r \<Rightarrow> r)"

section \<open>The application state and a sent message (handleSendMessage)\<close>

text \<open>
  A message of the chat (its \<open>id\<close> and \<open>text\<close> are \<open>msg_id\<close> and \<open>msg_text\<close> here; the
  text is a parsed value, since \<open>aiReasoning\<close> is shown as it was parsed) and the three
  states of the component.
\<close>

datatype Role = User | Ai | System

record ChatMessage =
  msg_id :: string
  role :: Role
  msg_text :: json
  attachment :: "string option"
  timestamp :: nat

record app_state =
  sceneData :: json
  history :: "ChatMessage list"
  isProcessing :: bool

definition INITIAL_SCENE :: json where
  "INITIAL_SCENE =
     JObj [(''nodes'', JArr []), (''environment'', JStr ''city''),
           (''ambientLightIntensity'', JNum 0.5)]"

definition MSG_ANALYZING :: string where
  "MSG_ANALYZING = ''Schityvayu stil i materialy s foto...''"

definition MSG_SCENE_UPDATED :: string where
  "MSG_SCENE_UPDATED = ''Scena obnovlena.''"

text \<open>
  \<open>handleSendMessage\<close> as the state after it, for the response the awaited
  \<open>generateSceneFromPrompt\<close> resolves to. \<open>clock k\<close> is the value of the k-th
  \<open>Date.now()\<close> of the call, counted from 0: two for the message of the user, one for
  the \<open>analyzing\<close> message when there is an attachment, and the next two for the answer.
  The two awaited calls catch their own exceptions and nothing else in the \<open>try\<close>
  throws, so the \<open>catch\<close> has no branch here; the \<open>finally\<close> is the last update.
\<close>

definition handleSendMessage :: "(nat \<Rightarrow> nat) \<Rightarrow> string \<Rightarrow> string option \<Rightarrow> gen_result
    \<Rightarrow> app_state \<Rightarrow> app_state" where
  "handleSendMessage clock txt attach response st =
     (let userMsg = \<lparr> msg_id = show_nat (clock 0), role = User, msg_text = JStr txt,
                       attachment = attach, timestamp = clock 1 \<rparr>;
          st1 = st\<lparr> history := history st @ [userMsg], isProcessing := True \<rparr>;
          analyzed = (case attach of None \<Rightarrow> False | Some a \<Rightarrow> a \<noteq> []);
          st2 = (if analyzed
                 then st1\<lparr> history := history st1 @
                        [\<lparr> msg_id = ''analyzing'', role = System, msg_text = JStr MSG_ANALYZING,
                           attachment = None, timestamp = clock 2 \<rparr>] \<rparr>
                 else st1);
          k = (if analyzed then 3 else 2);
          st3 = (case result_data response of
                   Some d \<Rightarrow> st2\<lparr> sceneData := d \<rparr>
                 | None \<Rightarrow> st2);
          aiResponseText = (case result_data response of
                   Some d \<Rightarrow> js_or (Some (result_text response)) (JStr MSG_SCENE_UPDATED)
                 | None \<Rightarrow> result_text response);
          st4 = st3\<lparr> history := filter (\<lambda>m. msg_id m \<noteq> ''analyzing'') (history st3) @
                    [\<lparr> msg_id = show_nat (clock k), role = Ai, msg_text = aiResponseText,
                       attachment = None, timestamp = clock (k + 1) \<rparr>] \<rparr>
      in st4\<lparr> isProcessing := False \<rparr>)"

section \<open>Notions the properties are stated with\<close>

subsection \<open>Orientation of a face\<close>

fun vsub :: "vec3 \<Rightarrow> vec3 \<Rightarrow> vec3" where
  "vsub (a, b, c) (x, y, z) = (a - x, b - y, c - z)"

fun cross :: "vec3 \<Rightarrow> vec3 \<Rightarrow> vec3" where
  "cross (a, b, c) (x, y, z) = (b * z - c * y, c * x - a * z, a * y - b * x)"

fun dot :: "vec3 \<Rightarrow> vec3 \<Rightarrow> real" where
  "dot (a, b, c) (x, y, z) = a * x + b * y + c * z"

definition triple :: "vec3 \<Rightarrow> vec3 \<Rightarrow> vec3 \<Rightarrow> real" where
  "triple u v w = dot (cross u v) w"

text \<open>The corners of a face with the two corners that follow each, cyclically.\<close>

definition corner_triples :: "'a list \<Rightarrow> ('a \<times> 'a \<times> 'a) list" where
  "corner_triples ps = zip ps (zip (rotate1 ps) (rotate1 (rotate1 ps)))"

text \<open>
  A face \<open>f\<close> (positions in the vertex list \<open>vs\<close>) is counter-clockwise seen from
  outside when, at each corner, the normal that the right-hand rule gives to the turn
  from one edge to the next points away from the solid: every vertex of the solid that
  is not on the face lies strictly behind it.
\<close>

definition face_outward :: "vec3 list \<Rightarrow> nat list \<Rightarrow> bool" where
  "face_outward vs f =
     list_all (\<lambda>(p, q, r).
        list_all (\<lambda>w. triple (vsub q p) (vsub r q) (vsub w q) < 0)
          (map (nth vs) (filter (\<lambda>i. i \<notin> set f) [0..<length vs])))
       (corner_triples (map (nth vs) f))"

text \<open>
  The mirror image: the face is clockwise seen from outside when, at each corner, that
  normal points into the solid: every vertex of the solid that is not on the face lies
  strictly in front of it.
\<close>

definition face_inward :: "vec3 list \<Rightarrow> nat list \<Rightarrow> bool" where
  "face_inward vs f =
     list_all (\<lambda>(p, q, r).
        list_all (\<lambda>w. 0 < triple (vsub q p) (vsub r q) (vsub w q))
          (map (nth vs) (filter (\<lambda>i. i \<notin> set f) [0..<length vs])))
       (corner_triples (map (nth vs) f))"

text \<open>The three maps of \<open>addGeometry\<close> on one point.\<close>

definition node_transform :: "vec3 \<Rightarrow> vec3 \<Rightarrow> vec3 \<Rightarrow> vec3 \<Rightarrow> vec3" where
  "node_transform scl rot pos p = translate_step pos (rotate_step rot (scale_step scl p))"

text \<open>The determinant of the scaling step.\<close>

fun scale_det :: "vec3 \<Rightarrow> real" where
  "scale_det (s0, s1, s2) = s0 * s1 * s2 / 8"

subsection \<open>The material identifier as the specification words it\<close>

text \<open>A leading \<open>#\<close> is replaced by \<open>Mat_\<close>; nothing else is touched.\<close>

fun spec_material_id :: "string \<Rightarrow> string" where
  "spec_material_id [] = []"
| "spec_material_id (c # cs) = (if c = CHR ''#'' then ''Mat_'' @ cs else c # cs)"

subsection \<open>What the export reads of a node\<close>

definition export_view :: "SceneNode \<Rightarrow> string \<times> string \<times> string \<times> bool \<times> vec3 \<times> vec3 \<times> vec3" where
  "export_view n =
     (name n, normalized_group n, color (material n), is_quad_type (type n),
      position n, rotation n, scale n)"

text \<open>A node built from these values alone, every other field fixed.\<close>

fun of_view :: "string \<times> string \<times> string \<times> bool \<times> vec3 \<times> vec3 \<times> vec3 \<Rightarrow> SceneNode" where
  "of_view (nm, grp, col, quad, pos, rot, scl) =
     \<lparr> node_id = [], name = nm, group = grp, type = (if quad then PLANE else BOX),
       position = pos, rotation = rot, scale = scl, segments = None,
       material = \<lparr> color = col, roughness = 0, metalness = 0, opacity = None,
                    transparent = None, emissive = None, emissiveIntensity = None,
                    wireframe = None \<rparr>,
       shapePath = None \<rparr>"

text \<open>The node rebuilt from what the export reads of it.\<close>

definition canon :: "SceneNode \<Rightarrow> SceneNode" where
  "canon n = of_view (export_view n)"

subsection \<open>Group names that are not members of \<open>Object.prototype\<close>\<close>


subsection \<open>Responses the ingestion has to reject\<close>

text \<open>
  The specification's words: the payload is absent (no text, or an empty one), or what
  is between its braces is not parseable, or the parsed value has no \<open>nodes\<close> array.
\<close>

definition has_nodes_array :: "json \<Rightarrow> bool" where
  "has_nodes_array d =
     (case d of
        JObj kvs \<Rightarrow> (case map_of kvs ''nodes'' of Some (JArr xs) \<Rightarrow> True | _ \<Rightarrow> False)
      | _ \<Rightarrow> False)"

definition payload_rejected :: "(string \<Rightarrow> json option) \<Rightarrow> js_error + string option \<Rightarrow> bool" where
  "payload_rejected parse api =
     (case api of
        Inl e \<Rightarrow> False
      | Inr None \<Rightarrow> True
      | Inr (Some t) \<Rightarrow>
          t = [] \<or> (case parse (cleanJson t) of None \<Rightarrow> True | Some d \<Rightarrow> \<not> has_nodes_array d))"

subsection \<open>Concrete inputs\<close>

text \<open>A node with the given fields and a plain material, for the concrete cases below.\<close>

definition mk_node :: "string \<Rightarrow> string \<Rightarrow> GeometryType \<Rightarrow> vec3 \<Rightarrow> vec3 \<Rightarrow> vec3 \<Rightarrow> string \<Rightarrow> SceneNode" where
  "mk_node nm grp ty pos rot scl col =
     \<lparr> node_id = nm, name = nm, group = grp, type = ty, position = pos, rotation = rot,
       scale = scl, segments = None,
       material = \<lparr> color = col, roughness = 0.5, metalness = 0, opacity = None,
                    transparent = None, emissive = None, emissiveIntensity = None,
                    wireframe = None \<rparr>,
       shapePath = None \<rparr>"

text \<open>A parser that knows two payloads: an object without \<open>nodes\<close>, and a scene.\<close>

definition demo_parse :: "string \<Rightarrow> json option" where
  "demo_parse s =
     (if s = ''{}'' then Some (JObj [])
      else if s = ''{'' @ [CHR 0x22] @ ''nodes'' @ [CHR 0x22] @ '':[]}''
        then Some (JObj [(''nodes'', JArr [])])
      else None)"

section \<open>Properties of the geometry\<close>

lemma rotate_step_spec:
  "rotate_step (r0, r1, r2) p = spec_rot_z r2 (spec_rot_y r1 (spec_rot_x r0 p))"
  by (cases p) (simp add: rotate_cs_def Let_def)

lemma scale_step_spec: "scale_step scl p = spec_scale scl p"
  by (cases scl; cases p) simp

lemma translate_step_spec: "translate_step pos p = spec_translate pos p"
  by (cases pos; cases p) simp

text \<open>
  C1. Every vertex a node writes out is the local vertex scaled by \<open>scale * 0.5\<close> per
  axis, then rotated about X by \<open>rotation[0]\<close>, about Y by \<open>rotation[1]\<close> and about Z by
  \<open>rotation[2]\<close>, each on the point the previous rotation produced, then moved by
  \<open>position\<close>.
\<close>

theorem C1_world_vertex_transform:
  "world_vertices node =
     map (spec_transform (scale node) (rotation node) (position node))
       (local_vertices (type node))"
proof -
  obtain r0 r1 r2 where r: "rotation node = (r0, r1, r2)"
    by (cases "rotation node") auto
  show ?thesis
    by (simp add: world_vertices_def spec_transform_def r rotate_step_spec
        scale_step_spec translate_step_spec del: rotate_step.simps)
qed

lemma length_world_vertices:
  "length (world_vertices node) = (if is_quad_type (type node) then 4 else 8)"
  by (simp add: world_vertices_def local_vertices_def quad_vertices_def cube_vertices_def)

text \<open>
  C2. The local geometry of a node is one of two: for the types \<open>plane\<close> and \<open>window\<close>
  the four vertices of the quad and one face of four indices; for every other type the
  eight corners \<open>(\<plusminus>1, \<plusminus>1, \<plusminus>1)\<close> of the cube and six faces, each of four distinct
  indices among the eight of the node.
\<close>

theorem C2_two_topologies:
  "(type node = PLANE \<or> type node = WINDOW \<longrightarrow>
      local_vertices (type node) = [(-1, -1, 0), (1, -1, 0), (-1, 1, 0), (1, 1, 0)]
      \<and> node_faces node off = [[off, off + 1, off + 3, off + 2]])
   \<and> (type node \<noteq> PLANE \<and> type node \<noteq> WINDOW \<longrightarrow>
      local_vertices (type node) =
        [(-1, -1, 1), (1, -1, 1), (-1, 1, 1), (1, 1, 1),
         (-1, -1, -1), (1, -1, -1), (-1, 1, -1), (1, 1, -1)]
      \<and> set (local_vertices (type node)) = {-1, 1} \<times> {-1, 1} \<times> {-1, 1}
      \<and> distinct (local_vertices (type node))
      \<and> node_faces node off = cube_faces off
      \<and> length (node_faces node off) = 6
      \<and> list_all (\<lambda>f. length f = 4 \<and> distinct f \<and> set f \<subseteq> {off ..< off + 8})
            (node_faces node off))"
  by (auto simp add: node_faces_def length_world_vertices is_quad_type_def local_vertices_def
      quad_vertices_def cube_vertices_def quad_face_def cube_faces_def)

theorem C2_two_topologies_witness:
  "node_faces (mk_node ''w'' ''A'' WINDOW (0, 0, 0) (0, 0, 0) (1, 1, 1) ''#fff'') 1 = [[1, 2, 4, 3]]
   \<and> local_vertices (type (mk_node ''w'' ''A'' WINDOW (0, 0, 0) (0, 0, 0) (1, 1, 1) ''#fff''))
       = [(-1, -1, 0), (1, -1, 0), (-1, 1, 0), (1, 1, 0)]
   \<and> node_faces (mk_node ''s'' ''A'' SPHERE (0, 0, 0) (0, 0, 0) (1, 1, 1) ''#fff'') 1 = cube_faces 1
   \<and> length (node_faces (mk_node ''s'' ''A'' SPHERE (0, 0, 0) (0, 0, 0) (1, 1, 1) ''#fff'') 1) = 6"
proof -
  let ?w = "mk_node ''w'' ''A'' WINDOW (0, 0, 0) (0, 0, 0) (1, 1, 1) ''#fff''"
  let ?s = "mk_node ''s'' ''A'' SPHERE (0, 0, 0) (0, 0, 0) (1, 1, 1) ''#fff''"
  have w: "type ?w = PLANE \<or> type ?w = WINDOW" by (simp add: mk_node_def)
  have s: "type ?s \<noteq> PLANE \<and> type ?s \<noteq> WINDOW" by (simp add: mk_node_def)
  note q = mp [OF conjunct1 [OF C2_two_topologies [of ?w 1]] w]
  note c = mp [OF conjunct2 [OF C2_two_topologies [of ?s 1]] s]
  have 1: "node_faces ?w 1 = [[1, 2, 4, 3]]"
    using conjunct2 [OF q] by simp
  have 2: "local_vertices (type ?w) = [(-1, -1, 0), (1, -1, 0), (-1, 1, 0), (1, 1, 0)]"
    by (rule conjunct1 [OF q])
  have 3: "node_faces ?s 1 = cube_faces 1"
    using c by (elim conjE)
  have 4: "length (node_faces ?s 1) = 6"
    using c by (elim conjE)
  show ?thesis using 1 2 3 4 by (intro conjI)
qed

subsection \<open>The rotation and its inverse\<close>

lemma cos_sin_unit: "cos a * cos a + sin a * sin a = (1::real)"
  using sin_cos_squared_add3 [of a] by simp

lemma spec_rot_x_inverse: "spec_rot_x (- a) (spec_rot_x a p) = p"
proof (cases p)
  case (fields x y z)
  show ?thesis
    using cos_sin_unit [of a]
    unfolding fields spec_rot_x.simps cos_minus sin_minus prod.inject
    apply -
    apply (intro conjI)
      apply (rule refl | algebra)+
    done
qed

lemma spec_rot_y_inverse: "spec_rot_y (- a) (spec_rot_y a p) = p"
proof (cases p)
  case (fields x y z)
  show ?thesis
    using cos_sin_unit [of a]
    unfolding fields spec_rot_y.simps cos_minus sin_minus prod.inject
    apply -
    apply (intro conjI)
      apply (rule refl | algebra)+
    done
qed

lemma spec_rot_z_inverse: "spec_rot_z (- a) (spec_rot_z a p) = p"
proof (cases p)
  case (fields x y z)
  show ?thesis
    using cos_sin_unit [of a]
    unfolding fields spec_rot_z.simps cos_minus sin_minus prod.inject
    apply -
    apply (intro conjI)
      apply (rule refl | algebra)+
    done
qed

lemma spec_rot_zero: "spec_rot_x 0 p = p" "spec_rot_y 0 p = p" "spec_rot_z 0 p = p"
  by (cases p; simp)+

lemma rotate_step_only_x: "rotate_step (a, 0, 0) p = spec_rot_x a p"
  by (cases p) (simp add: rotate_cs_def Let_def)

lemma rotate_step_only_y: "rotate_step (0, a, 0) p = spec_rot_y a p"
  by (cases p) (simp add: rotate_cs_def Let_def)

lemma rotate_step_only_z: "rotate_step (0, 0, a) p = spec_rot_z a p"
  by (cases p) (simp add: rotate_cs_def Let_def)

text \<open>
  C9. Over the reals, the rotation of the export (X, then Y, then Z) followed by the
  elementary rotations with negated angles in reverse order (Z, then Y, then X) gives
  the point back. The elementary rotations are stated twice: as the rotation step of
  the source with the two other angles zero, and as the specification words them.
\<close>

theorem C9_rotation_round_trip:
  "rotate_step (- r0, 0, 0) (rotate_step (0, - r1, 0) (rotate_step (0, 0, - r2)
     (rotate_step (r0, r1, r2) p))) = p
   \<and> spec_rot_x (- r0) (spec_rot_y (- r1) (spec_rot_z (- r2) (rotate_step (r0, r1, r2) p))) = p"
  by (simp only: rotate_step_only_x rotate_step_only_y rotate_step_only_z rotate_step_spec
      spec_rot_zero spec_rot_x_inverse spec_rot_y_inverse spec_rot_z_inverse simp_thms)

subsection \<open>Orientation of the faces of the cube\<close>

lemma vsub_translate: "vsub (translate_step pos u) (translate_step pos v) = vsub u v"
  by (cases pos; cases u; cases v) simp

lemma vsub_rot_x: "vsub (spec_rot_x a u) (spec_rot_x a v) = spec_rot_x a (vsub u v)"
  by (cases u; cases v) (simp add: algebra_simps)

lemma vsub_rot_y: "vsub (spec_rot_y a u) (spec_rot_y a v) = spec_rot_y a (vsub u v)"
  by (cases u; cases v) (simp add: algebra_simps)

lemma vsub_rot_z: "vsub (spec_rot_z a u) (spec_rot_z a v) = spec_rot_z a (vsub u v)"
  by (cases u; cases v) (simp add: algebra_simps)

lemma vsub_scale: "vsub (scale_step scl u) (scale_step scl v) = scale_step scl (vsub u v)"
  by (cases scl; cases u; cases v) (simp add: algebra_simps)

text \<open>A rotation about an axis keeps the triple product, the scaling multiplies it.\<close>

lemma triple_rot_x: "triple (spec_rot_x a u) (spec_rot_x a v) (spec_rot_x a w) = triple u v w"
proof -
  obtain u0 u1 u2 v0 v1 v2 w0 w1 w2 where
    uvw: "u = (u0, u1, u2)" "v = (v0, v1, v2)" "w = (w0, w1, w2)"
    by (cases u, cases v, cases w) auto
  show ?thesis
    using cos_sin_unit [of a]
    unfolding uvw triple_def spec_rot_x.simps cross.simps dot.simps
    by algebra
qed

lemma triple_rot_y: "triple (spec_rot_y a u) (spec_rot_y a v) (spec_rot_y a w) = triple u v w"
proof -
  obtain u0 u1 u2 v0 v1 v2 w0 w1 w2 where
    uvw: "u = (u0, u1, u2)" "v = (v0, v1, v2)" "w = (w0, w1, w2)"
    by (cases u, cases v, cases w) auto
  show ?thesis
    using cos_sin_unit [of a]
    unfolding uvw triple_def spec_rot_y.simps cross.simps dot.simps
    by algebra
qed

lemma triple_rot_z: "triple (spec_rot_z a u) (spec_rot_z a v) (spec_rot_z a w) = triple u v w"
proof -
  obtain u0 u1 u2 v0 v1 v2 w0 w1 w2 where
    uvw: "u = (u0, u1, u2)" "v = (v0, v1, v2)" "w = (w0, w1, w2)"
    by (cases u, cases v, cases w) auto
  show ?thesis
    using cos_sin_unit [of a]
    unfolding uvw triple_def spec_rot_z.simps cross.simps dot.simps
    by algebra
qed

lemma triple_scale:
  "triple (scale_step scl u) (scale_step scl v) (scale_step scl w) = scale_det scl * triple u v w"
proof -
  obtain u0 u1 u2 v0 v1 v2 w0 w1 w2 s0 s1 s2 where
    uvw: "u = (u0, u1, u2)" "v = (v0, v1, v2)" "w = (w0, w1, w2)" "scl = (s0, s1, s2)"
    by (cases u, cases v, cases w, cases scl) auto
  show ?thesis
    unfolding uvw triple_def by (simp add: field_simps)
qed

lemma triple_transform:
  "triple (vsub (node_transform scl rot pos b) (node_transform scl rot pos a))
          (vsub (node_transform scl rot pos c) (node_transform scl rot pos b))
          (vsub (node_transform scl rot pos w) (node_transform scl rot pos b))
   = scale_det scl * triple (vsub b a) (vsub c b) (vsub w b)"
proof -
  obtain r0 r1 r2 where r: "rot = (r0, r1, r2)" by (cases rot) auto
  show ?thesis
    unfolding node_transform_def r rotate_step_spec
    by (simp only: vsub_translate vsub_rot_x vsub_rot_y vsub_rot_z vsub_scale
        triple_rot_x triple_rot_y triple_rot_z triple_scale)
qed

lemma world_vertices_transform:
  "world_vertices node =
     map (node_transform (scale node) (rotation node) (position node))
       (local_vertices (type node))"
  by (simp add: world_vertices_def node_transform_def)

lemma upt_eight: "[0..<8] = [0, 1, 2, 3, 4, 5, 6, 7]"
  by (simp add: upt_rec)

lemma cube_faces_outward:
  assumes "\<not> is_quad_type (type node)" and "0 < scale_det (scale node)"
  shows "list_all (\<lambda>f. face_outward (world_vertices node) (map (\<lambda>i. i - off) f))
           (node_faces node off)"
  using assms
  apply (simp add: node_faces_def length_world_vertices cube_faces_def face_outward_def
      corner_triples_def world_vertices_transform local_vertices_def cube_vertices_def
      upt_eight triple_transform)
  apply (simp add: triple_def mult_less_0_iff)
  done

lemma cube_faces_inward:
  assumes "\<not> is_quad_type (type node)" and "scale_det (scale node) < 0"
  shows "list_all (\<lambda>f. face_inward (world_vertices node) (map (\<lambda>i. i - off) f))
           (node_faces node off)"
  using assms
  apply (simp add: node_faces_def length_world_vertices cube_faces_def face_inward_def
      corner_triples_def world_vertices_transform local_vertices_def cube_vertices_def
      upt_eight triple_transform)
  apply (simp add: triple_def zero_less_mult_iff)
  done

text \<open>
  C7, as the code has it. For a node of the cube topology whose three scale factors
  have a positive product, each of the six faces written lists its four vertices
  counter-clockwise seen from outside the transformed cube, whatever the rotation and
  the position: at every corner of a face the right-hand normal of the turn points away
  from the four vertices that are not on the face. The order of the indices does not
  follow the scale: when the product of the three factors is negative, each of the six
  faces is clockwise seen from outside, again for every rotation and position. (An
  index \<open>i\<close> of a face written with the offset \<open>off\<close> names the vertex at position
  \<open>i - off\<close> of the node.)
\<close>

theorem C7_cube_faces_outward:
  assumes "\<not> is_quad_type (type node)"
    and "scale node = (s0, s1, s2)"
  shows "(0 < s0 * s1 * s2 \<longrightarrow>
            list_all (\<lambda>f. face_outward (world_vertices node) (map (\<lambda>i. i - off) f))
              (node_faces node off))
       \<and> (s0 * s1 * s2 < 0 \<longrightarrow>
            list_all (\<lambda>f. face_inward (world_vertices node) (map (\<lambda>i. i - off) f))
              (node_faces node off))"
  using cube_faces_outward [of node off] cube_faces_inward [of node off] assms by simp

theorem C7_cube_faces_outward_witness:
  "list_all (\<lambda>f. face_outward
        (world_vertices (mk_node ''b'' ''A'' BOX (1, 2, 3) (1, 2, 3) (2, 1, 3) ''#fff''))
        (map (\<lambda>i. i - 9) f))
     (node_faces (mk_node ''b'' ''A'' BOX (1, 2, 3) (1, 2, 3) (2, 1, 3) ''#fff'') 9)
   \<and> list_all (\<lambda>f. face_inward
        (world_vertices (mk_node ''m'' ''A'' BOX (1, 2, 3) (1, 2, 3) (2, - 1, 3) ''#fff''))
        (map (\<lambda>i. i - 1) f))
     (node_faces (mk_node ''m'' ''A'' BOX (1, 2, 3) (1, 2, 3) (2, - 1, 3) ''#fff'') 1)"
proof -
  let ?b = "mk_node ''b'' ''A'' BOX (1, 2, 3) (1, 2, 3) (2, 1, 3) ''#fff''"
  let ?m = "mk_node ''m'' ''A'' BOX (1, 2, 3) (1, 2, 3) (2, - 1, 3) ''#fff''"
  have b1: "\<not> is_quad_type (type ?b)" by (simp add: mk_node_def is_quad_type_def)
  have b2: "scale ?b = (2, 1, 3)" by (simp add: mk_node_def)
  have b3: "(0::real) < 2 * 1 * 3" by simp
  have m1: "\<not> is_quad_type (type ?m)" by (simp add: mk_node_def is_quad_type_def)
  have m2: "scale ?m = (2, - 1, 3)" by (simp add: mk_node_def)
  have m3: "(2::real) * - 1 * 3 < 0" by simp
  note pos = mp [OF conjunct1 [OF C7_cube_faces_outward [OF b1 b2, of 9]] b3]
  note neg = mp [OF conjunct2 [OF C7_cube_faces_outward [OF m1 m2, of 1]] m3]
  show ?thesis using pos neg by (intro conjI)
qed

text \<open>
  C7, as the claim states it, fails for a mirroring scale: with the scale \<open>(-1, 1, 1)\<close>,
  no rotation and no translation, the faces written are not all counter-clockwise seen
  from outside.
\<close>

theorem C7_mirrored_scale_counterexample:
  "\<not> list_all (\<lambda>f. face_outward
          (world_vertices (mk_node ''m'' ''A'' BOX (0, 0, 0) (0, 0, 0) (-1, 1, 1) ''#fff''))
          (map (\<lambda>i. i - 1) f))
        (node_faces (mk_node ''m'' ''A'' BOX (0, 0, 0) (0, 0, 0) (-1, 1, 1) ''#fff'') 1)"
  by (simp add: mk_node_def node_faces_def world_vertices_def local_vertices_def
      is_quad_type_def cube_vertices_def cube_faces_def face_outward_def corner_triples_def
      rotate_cs_def triple_def upt_rec)

section \<open>Properties of the documents\<close>

subsection \<open>The running vertex offset\<close>

lemma snd_node_step: "snd (node_step idx node (out, off)) = next_offset node off"
  by (simp add: node_step_def addGeometry_def Let_def)

lemma next_offset_eq:
  "next_offset node off = off + (if is_quad_type (type node) then 4 else 8)"
  by (simp add: next_offset_def length_world_vertices)

lemma snd_export_loop:
  "snd (export_loop idx nodes st) =
     snd st + 8 * length (filter (\<lambda>n. \<not> is_quad_type (type n)) nodes)
            + 4 * length (filter (\<lambda>n. is_quad_type (type n)) nodes)"
proof (induction nodes arbitrary: idx st)
  case Nil
  show ?case by simp
next
  case (Cons node nodes)
  obtain out off where st: "st = (out, off)" by (cases st)
  show ?case
    by (simp add: Cons.IH st snd_node_step next_offset_eq)
qed

lemma node_faces_shift: "node_faces node off = map (map (\<lambda>i. off + i)) (node_faces node 0)"
  by (simp add: node_faces_def quad_face_def cube_faces_def)

lemma export_loop_append:
  "export_loop idx (ns @ [n]) st = node_step (idx + length ns) n (export_loop idx ns st)"
  by (induction ns arbitrary: idx st) simp_all

lemma export_group_state_snoc:
  "export_group_state g (ns @ [n]) = node_step (length ns) n (export_group_state g ns)"
  by (simp add: export_group_state_def export_loop_append)

lemma fst_node_step:
  "fst (node_step idx node st) =
       fst st @ object_line node idx @ material_line node
         @ concat (map vertex_line (world_vertices node))
         @ concat (map face_line (map (map (\<lambda>i. snd st + i)) (node_faces node 0))) @ NL"
proof -
  obtain out off where st: "st = (out, off)" by (cases st)
  have "fst (node_step idx node (out, off)) =
       out @ object_line node idx @ material_line node
         @ concat (map vertex_line (world_vertices node))
         @ concat (map face_line (node_faces node off)) @ NL"
    by (simp add: node_step_def addGeometry_def Let_def)
  then show ?thesis
    by (simp only: st fst_conv snd_conv node_faces_shift [of node off])
qed

lemma snd_export_group_state:
  "snd (export_group_state g nodes) =
       1 + 8 * length (filter (\<lambda>n. \<not> is_quad_type (type n)) nodes)
         + 4 * length (filter (\<lambda>n. is_quad_type (type n)) nodes)"
  by (simp add: export_group_state_def snd_export_loop)

lemma export_group_snoc:
  "export_group g (ns @ [n]) =
     export_group g ns @ object_line n (length ns) @ material_line n
       @ concat (map vertex_line (world_vertices n))
       @ concat (map face_line (map (map (\<lambda>i.
            1 + 8 * length (filter (\<lambda>n. \<not> is_quad_type (type n)) ns)
              + 4 * length (filter (\<lambda>n. is_quad_type (type n)) ns) + i)) (node_faces n 0)))
       @ NL"
  unfolding export_group_def export_group_state_snoc fst_node_step snd_export_group_state ..

text \<open>
  C4. In the document of a group the vertex offset starts at 1. The document is built
  node by node: the loop runs the step of a node, with its place in the group, on the
  text and the offset the nodes before it have left. The text a node adds has, after
  its vertex lines, the face lines with the fixed indices shifted by the offset the node
  finds; the node advances the offset by the number of vertices it has written, 4 for a
  quad and 8 for a cube. After a list of nodes with N cubes and M quads the offset is
  \<open>1 + 8 N + 4 M\<close>, so the face lines of the node that follows them in the document are
  the fixed indices shifted by exactly that number.
\<close>

theorem C4_vertex_offset_counter:
  "snd (export_group_state g []) = 1
   \<and> export_group_state g (nodes @ [node])
       = node_step (length nodes) node (export_group_state g nodes)
   \<and> fst (node_step idx node (out, off)) =
       out @ object_line node idx @ material_line node
         @ concat (map vertex_line (world_vertices node))
         @ concat (map face_line (map (map (\<lambda>i. off + i)) (node_faces node 0))) @ NL
   \<and> snd (node_step idx node (out, off)) = off + length (world_vertices node)
   \<and> length (world_vertices node) = (if is_quad_type (type node) then 4 else 8)
   \<and> snd (export_group_state g nodes) =
       1 + 8 * length (filter (\<lambda>n. \<not> is_quad_type (type n)) nodes)
         + 4 * length (filter (\<lambda>n. is_quad_type (type n)) nodes)
   \<and> export_group g (nodes @ [node]) =
       export_group g nodes @ object_line node (length nodes) @ material_line node
         @ concat (map vertex_line (world_vertices node))
         @ concat (map face_line (map (map (\<lambda>i.
              1 + 8 * length (filter (\<lambda>n. \<not> is_quad_type (type n)) nodes)
                + 4 * length (filter (\<lambda>n. is_quad_type (type n)) nodes) + i))
              (node_faces node 0)))
         @ NL"
proof -
  have 0: "fst (node_step idx node (out, off)) =
       out @ object_line node idx @ material_line node
         @ concat (map vertex_line (world_vertices node))
         @ concat (map face_line (map (map (\<lambda>i. off + i)) (node_faces node 0))) @ NL"
    using fst_node_step [of idx node "(out, off)"] by (simp only: fst_conv snd_conv)
  have 1: "snd (export_group_state g []) = 1"
    by (simp add: export_group_state_def)
  have 2: "snd (node_step idx node (out, off)) = off + length (world_vertices node)"
    by (simp add: snd_node_step next_offset_eq length_world_vertices)
  show ?thesis
    using 0 1 2 length_world_vertices [of node] snd_export_group_state [of g nodes]
      export_group_state_snoc [of g nodes node] export_group_snoc [of g nodes node]
    by (intro conjI)
qed

subsection \<open>The material line\<close>

lemma js_replace_hash:
  "js_replace ''#'' ''Mat_'' c =
     (if CHR ''#'' \<in> set c
      then takeWhile (\<lambda>x. x \<noteq> CHR ''#'') c @ ''Mat_'' @ tl (dropWhile (\<lambda>x. x \<noteq> CHR ''#'') c)
      else c)"
  by (induction c) auto

text \<open>
  C8, as the code has it. The material line of a node is \<open>usemtl\<close>, a blank, and the
  colour with its first \<open>#\<close> replaced by \<open>Mat_\<close>, wherever that \<open>#\<close> stands: what is
  before it and what is after it are kept; a colour without \<open>#\<close> is written as it is.
  For a colour that begins with \<open>#\<close> this is the replacement of the leading \<open>#\<close>.
\<close>

theorem C8_material_line:
  "material_line node =
     ''usemtl '' @
     (if CHR ''#'' \<in> set (color (material node))
      then takeWhile (\<lambda>x. x \<noteq> CHR ''#'') (color (material node)) @ ''Mat_'' @
           tl (dropWhile (\<lambda>x. x \<noteq> CHR ''#'') (color (material node)))
      else color (material node)) @ NL
   \<and> (\<forall>rest. color (material node) = CHR ''#'' # rest \<longrightarrow>
         material_line node = ''usemtl '' @ ''Mat_'' @ rest @ NL)"
  by (simp add: material_line_def js_replace_hash del: js_replace.simps)

theorem C8_material_line_witness:
  "material_line (mk_node ''a'' ''A'' BOX (0, 0, 0) (0, 0, 0) (1, 1, 1) ''#ff0000'')
     = ''usemtl Mat_ff0000'' @ NL"
  using conjunct2 [OF C8_material_line
      [of "mk_node ''a'' ''A'' BOX (0, 0, 0) (0, 0, 0) (1, 1, 1) ''#ff0000''"]]
  by (simp add: mk_node_def)

text \<open>
  C8, as the claim states it, fails for a colour with a \<open>#\<close> that is not leading: for
  \<open>a#b\<close> the line written is \<open>usemtl aMat_b\<close>, and not the colour with only a leading
  \<open>#\<close> replaced, which is \<open>a#b\<close> itself.
\<close>

theorem C8_inner_hash_counterexample:
  "material_line (mk_node ''a'' ''A'' BOX (0, 0, 0) (0, 0, 0) (1, 1, 1) ''a#b'')
     = ''usemtl aMat_b'' @ NL
   \<and> material_line (mk_node ''a'' ''A'' BOX (0, 0, 0) (0, 0, 0) (1, 1, 1) ''a#b'')
     \<noteq> ''usemtl '' @ spec_material_id ''a#b'' @ NL"
  by (simp add: material_line_def mk_node_def)

subsection \<open>Two documents computed\<close>

text \<open>
  The two examples of the specification, evaluated on the model: a plane of scale
  \<open>(2, 2, 1)\<close> at the origin gives the four vertices \<open>(\<plusminus>1, \<plusminus>1, 0)\<close> and the face
  \<open>1 2 4 3\<close>; a box of scale \<open>(1, 1, 1)\<close> at \<open>(0, 0.5, 0)\<close> gives the eight vertices
  \<open>(\<plusminus>0.5, 0.5 \<plusminus> 0.5, \<plusminus>0.5)\<close>.
\<close>

lemma show_nat_digit: "n < 10 \<Longrightarrow> show_nat n = [''0123456789'' ! n]"
  by (subst show_nat.simps) simp

lemma show_nat_more:
  "\<not> n < 10 \<Longrightarrow> show_nat n = show_nat (n div 10) @ [''0123456789'' ! (n mod 10)]"
  by (subst show_nat.simps) simp

lemma replicate_small: "replicate 3 x = [x, x, x]" "replicate 4 x = [x, x, x, x]"
  by (simp_all add: numeral_3_eq_3 numeral_eq_Suc)

lemma toFixed4_examples:
  "toFixed4 1 = ''1.0000''" "toFixed4 (- 1) = ''-1.0000''" "toFixed4 0 = ''0.0000''"
  "toFixed4 (1 / 2) = ''0.5000''" "toFixed4 (- (1 / 2)) = ''-0.5000''"
  by (simp_all add: toFixed4_def Let_def show_nat_digit show_nat_more replicate_small)

lemma plane_vertices:
  "world_vertices (mk_node ''p'' ''G'' PLANE (0, 0, 0) (0, 0, 0) (2, 2, 1) ''#00ff00'')
     = [(-1, -1, 0), (1, -1, 0), (-1, 1, 0), (1, 1, 0)]"
  by (simp add: world_vertices_def mk_node_def local_vertices_def is_quad_type_def
      quad_vertices_def rotate_cs_def)

lemma plane_document:
  "export_group ''G'' [mk_node ''p'' ''G'' PLANE (0, 0, 0) (0, 0, 0) (2, 2, 1) ''#00ff00'']
     = ''# Group: G'' @ NL @ ''# Exported from Gen-Blender Pro'' @ NL @ NL @
       ''o p_0'' @ NL @
       ''usemtl Mat_00ff00'' @ NL @
       ''v -1.0000 -1.0000 0.0000'' @ NL @
       ''v 1.0000 -1.0000 0.0000'' @ NL @
       ''v -1.0000 1.0000 0.0000'' @ NL @
       ''v 1.0000 1.0000 0.0000'' @ NL @
       ''f 1 2 4 3'' @ NL @ NL"
  by (simp add: export_group_def export_group_state_def node_step_def addGeometry_def
      plane_vertices node_faces_def next_offset_def quad_face_def header_def object_line_def
      material_line_def face_line_def toFixed4_examples show_nat_digit)
    (simp add: mk_node_def)

lemma box_vertices:
  "world_vertices (mk_node ''b'' ''G'' BOX (0, 1 / 2, 0) (0, 0, 0) (1, 1, 1) ''#00ff00'')
     = [(- (1 / 2), 0, 1 / 2), (1 / 2, 0, 1 / 2), (- (1 / 2), 1, 1 / 2), (1 / 2, 1, 1 / 2),
        (- (1 / 2), 0, - (1 / 2)), (1 / 2, 0, - (1 / 2)), (- (1 / 2), 1, - (1 / 2)),
        (1 / 2, 1, - (1 / 2))]"
  by (simp add: world_vertices_def mk_node_def local_vertices_def is_quad_type_def
      cube_vertices_def rotate_cs_def)

section \<open>Properties of the export request\<close>

text \<open>
  C6. When no node is left after the optional filter, the request returns at once:
  no document, no archive and no download. (It never writes the state of the
  application: the scene is an argument here and no state is returned.)
\<close>

theorem C6_empty_export_is_noop:
  "nodesToExport targetGroup nodes = [] \<Longrightarrow> handleExport now targetGroup nodes = Inr None"
  by (simp add: handleExport_def)

theorem C6_empty_export_is_noop_witness:
  "nodesToExport (Some ''B'') [mk_node ''a'' ''A'' BOX (0, 0, 0) (0, 0, 0) (1, 1, 1) ''#fff''] = []
   \<and> handleExport 0 (Some ''B'') [mk_node ''a'' ''A'' BOX (0, 0, 0) (0, 0, 0) (1, 1, 1) ''#fff'']
       = Inr None
   \<and> handleExport 0 None [] = Inr None"
proof -
  let ?ns = "[mk_node ''a'' ''A'' BOX (0, 0, 0) (0, 0, 0) (1, 1, 1) ''#fff'']"
  have 1: "nodesToExport (Some ''B'') ?ns = []"
    by (simp add: nodesToExport_def normalized_group_def mk_node_def)
  have 2: "nodesToExport None [] = []"
    by (simp add: nodesToExport_def)
  show ?thesis
    using 1 C6_empty_export_is_noop [OF 1, of 0] C6_empty_export_is_noop [OF 2, of 0] by blast
qed

subsection \<open>The export of one group and the export of all\<close>












text \<open>
  A scene with a group named \<open>constructor\<close> does not get that far: the grouping of the
  Explorer throws, whatever the order of the names, so no export is ever requested on
  it. (Called on it all the same, the export of all groups would throw in its own
  grouping, and the export filtered to \<open>A\<close> would give the document of \<open>A\<close>.)
\<close>

lemma hierarchy_prototype_group_name:
  "hierarchy localeCompare
      [mk_node ''a'' ''A'' BOX (0, 0, 0) (0, 0, 0) (1, 1, 1) ''#fff'',
       mk_node ''b'' ''constructor'' BOX (0, 0, 0) (0, 0, 0) (1, 1, 1) ''#fff'']
     = Inl TypeError"
  by (simp add: hierarchy_def sortedNodes_def normalized_group_def mk_node_def
      Object_prototype_keys_def Let_def)

lemma handleExport_prototype_group_name:
  "handleExport 0 None
      [mk_node ''a'' ''A'' BOX (0, 0, 0) (0, 0, 0) (1, 1, 1) ''#fff'',
       mk_node ''b'' ''constructor'' BOX (0, 0, 0) (0, 0, 0) (1, 1, 1) ''#fff'']
     = Inl TypeError
   \<and> document_of (handleExport 0 (Some ''A'')
      [mk_node ''a'' ''A'' BOX (0, 0, 0) (0, 0, 0) (1, 1, 1) ''#fff'',
       mk_node ''b'' ''constructor'' BOX (0, 0, 0) (0, 0, 0) (1, 1, 1) ''#fff'']) ''A''
     = Some (export_group ''A'' [mk_node ''a'' ''A'' BOX (0, 0, 0) (0, 0, 0) (1, 1, 1) ''#fff''])"
  by (simp add: handleExport_def nodesToExport_def normalized_group_def mk_node_def
      Object_prototype_keys_def document_of_def Let_def)



subsection \<open>What the export depends on\<close>

lemma normalized_group_canon: "normalized_group (canon n) = normalized_group n"
  by (simp add: canon_def export_view_def normalized_group_def)

lemma world_vertices_canon: "world_vertices (canon n) = world_vertices n"
  by (simp add: canon_def export_view_def world_vertices_def local_vertices_def is_quad_type_def)

lemma node_step_canon: "node_step idx (canon n) st = node_step idx n st"
proof -
  have "object_line (canon n) idx = object_line n idx"
    by (simp add: object_line_def canon_def export_view_def)
  moreover have "material_line (canon n) = material_line n"
    by (simp add: material_line_def canon_def export_view_def)
  moreover have "node_faces (canon n) = node_faces n"
    by (simp add: node_faces_def world_vertices_canon fun_eq_iff)
  moreover have "next_offset (canon n) = next_offset n"
    by (simp add: next_offset_def world_vertices_canon fun_eq_iff)
  ultimately show ?thesis
    by (simp add: node_step_def addGeometry_def world_vertices_canon)
qed

lemma export_loop_canon: "export_loop idx (map canon ns) st = export_loop idx ns st"
  by (induction ns arbitrary: idx st) (simp_all add: node_step_canon)

lemma export_group_canon: "export_group g (map canon ns) = export_group g ns"
  by (simp add: export_group_def export_group_state_def export_loop_canon)

lemma nodesToExport_canon: "nodesToExport tg (map canon ns) = map canon (nodesToExport tg ns)"
  by (simp add: nodesToExport_def filter_map comp_def normalized_group_canon split: option.splits)

lemma push_node_canon:
  "push_node g (canon n) (map (apsnd (map canon)) G) = map (apsnd (map canon)) (push_node g n G)"
  by (induction G) auto

lemma keys_apsnd: "fst ` set (map (apsnd f) G) = fst ` set G"
  by (induction G) auto

lemma group_nodes_canon:
  "group_nodes (map canon ns) (map (apsnd (map canon)) G)
     = map_sum id (map (apsnd (map canon))) (group_nodes ns G)"
proof (induction ns arbitrary: G)
  case Nil
  show ?case by simp
next
  case (Cons n ns)
  have new: "map (apsnd (map canon)) G @ [(normalized_group n, [canon n])]
      = map (apsnd (map canon)) (G @ [(normalized_group n, [n])])"
    by simp
  show ?case
    apply (simp only: list.map group_nodes.simps Let_def normalized_group_canon keys_apsnd
        push_node_canon new Cons.IH)
    apply (simp add: id_def)
    done
qed

lemma documents_canon:
  "map_of (map ((\<lambda>(g, ns). (g, export_group g ns)) \<circ> apsnd (map canon)) G)
     = map_of (map (\<lambda>(g, ns). (g, export_group g ns)) G)"
  by (induction G) (auto simp add: export_group_canon)

lemma handleExport_canon: "handleExport now tg (map canon ns) = handleExport now tg ns"
proof -
  have g: "group_nodes (map canon (nodesToExport tg ns)) []
      = map_sum id (map (apsnd (map canon))) (group_nodes (nodesToExport tg ns) [])"
    using group_nodes_canon [of "nodesToExport tg ns" "[]"] by simp
  show ?thesis
    by (cases "group_nodes (nodesToExport tg ns) []")
      (simp_all add: handleExport_def nodesToExport_canon g documents_canon)
qed

text \<open>
  C10. What an export produces is determined by what \<open>export_view\<close> keeps of each node:
  the name, the normalized group, the colour of the material, whether the type is
  \<open>plane\<close> or \<open>window\<close>, and the position, rotation and scale (the place of a node in its
  group is given by the list). Two scenes whose nodes agree on these, one by one, give
  the same outcome, documents and archive name alike: \<open>id\<close>, \<open>segments\<close>, \<open>shapePath\<close>,
  the other fields of the material and the type beyond that one distinction are not
  read.
\<close>

theorem C10_export_reads_view_only:
  assumes "map export_view ns = map export_view ns'"
  shows "handleExport now tg ns = handleExport now tg ns'"
proof -
  have "map canon ns = map of_view (map export_view ns)"
    by (simp add: canon_def)
  also have "\<dots> = map of_view (map export_view ns')"
    by (simp only: assms)
  also have "\<dots> = map canon ns'"
    by (simp add: canon_def)
  finally have "handleExport now tg (map canon ns) = handleExport now tg (map canon ns')"
    by simp
  then show ?thesis by (simp only: handleExport_canon)
qed

theorem C10_export_reads_view_only_witness:
  "handleExport 0 None [mk_node ''a'' ''A'' BOX (1, 2, 3) (0, 1, 0) (1, 1, 2) ''#fff'']
   = handleExport 0 None
       [(mk_node ''a'' ''A'' BOX (1, 2, 3) (0, 1, 0) (1, 1, 2) ''#fff'')
          \<lparr> node_id := ''other'', type := SPHERE, segments := Some 64,
            material := \<lparr> color = ''#fff'', roughness = 1, metalness = 1, opacity = Some 0.5,
                          transparent = Some True, emissive = Some ''#00f'',
                          emissiveIntensity = Some 2, wireframe = Some True \<rparr>,
            shapePath := Some [[0, 0], [1, 0], [0, 1]] \<rparr>]"
proof -
  have v: "map export_view [mk_node ''a'' ''A'' BOX (1, 2, 3) (0, 1, 0) (1, 1, 2) ''#fff'']
      = map export_view
       [(mk_node ''a'' ''A'' BOX (1, 2, 3) (0, 1, 0) (1, 1, 2) ''#fff'')
          \<lparr> node_id := ''other'', type := SPHERE, segments := Some 64,
            material := \<lparr> color = ''#fff'', roughness = 1, metalness = 1, opacity = Some 0.5,
                          transparent = Some True, emissive = Some ''#00f'',
                          emissiveIntensity = Some 2, wireframe = Some True \<rparr>,
            shapePath := Some [[0, 0], [1, 0], [0, 1]] \<rparr>]"
    by (simp add: export_view_def mk_node_def normalized_group_def is_quad_type_def)
  show ?thesis by (rule C10_export_reads_view_only [OF v])
qed

section \<open>Properties of the ingestion\<close>

lemma nodesWithIds_no_array:
  "(\<forall>xs. nodes \<noteq> Some (JArr xs)) \<Longrightarrow> nodesWithIds toStr rnd nodes = Inl TypeError"
  by (auto simp add: nodesWithIds_def split: option.splits json.splits)

lemma ingest_rejects:
  assumes "\<not> has_nodes_array d"
  shows "ingest toStr rnd d = Inl TypeError"
proof (cases d)
  case (JObj kvs)
  from assms have "\<forall>xs. map_of kvs ''nodes'' \<noteq> Some (JArr xs)"
    by (auto simp add: has_nodes_array_def JObj)
  then show ?thesis
    by (simp add: ingest_def then_do_def JObj nodesWithIds_no_array)
qed (simp_all add: ingest_def then_do_def nodesWithIds_def)

lemma try_generate_rejects:
  assumes "payload_rejected parse api"
  shows "\<exists>e. try_generate parse toStr rnd api = Inl e"
  using assms
  by (auto simp add: payload_rejected_def try_generate_def ingest_rejects
      split: sum.splits option.splits)

lemma generate_rejects:
  assumes "payload_rejected parse api"
  shows "generateSceneFromPrompt parse toStr rnd api
           = \<lparr> result_text = JStr MSG_CORE_ERROR, result_data = None \<rparr>"
  using try_generate_rejects [OF assms, of toStr rnd]
  by (auto simp add: generateSceneFromPrompt_def)

lemma sceneData_handleSendMessage:
  "sceneData (handleSendMessage clock txt attach response st)
     = (case result_data response of Some d \<Rightarrow> d | None \<Rightarrow> sceneData st)"
  by (simp add: handleSendMessage_def Let_def split: option.splits)

lemma last_message_handleSendMessage:
  "msg_text (last (history (handleSendMessage clock txt attach response st)))
     = (case result_data response of
          Some d \<Rightarrow> js_or (Some (result_text response)) (JStr MSG_SCENE_UPDATED)
        | None \<Rightarrow> result_text response)"
  by (simp add: handleSendMessage_def Let_def split: option.splits)

text \<open>
  C5. For a response whose text is absent or empty, or not parseable between its
  braces, or parsed to a value without a \<open>nodes\<close> array, the ingestion returns (it is a
  value: every exception of the body is caught) the failure message and no scene; the
  message handler then leaves the scene of the state as it was and shows that message
  as the last entry of the history.
\<close>

theorem C5_rejected_payload_keeps_scene:
  assumes "payload_rejected parse api"
  shows "generateSceneFromPrompt parse toStr rnd api
           = \<lparr> result_text = JStr MSG_CORE_ERROR, result_data = None \<rparr>
       \<and> sceneData (handleSendMessage clock txt attach
             (generateSceneFromPrompt parse toStr rnd api) st) = sceneData st
       \<and> msg_text (last (history (handleSendMessage clock txt attach
             (generateSceneFromPrompt parse toStr rnd api) st))) = JStr MSG_CORE_ERROR"
  by (simp add: generate_rejects [OF assms] sceneData_handleSendMessage
      last_message_handleSendMessage)

lemma cleanJson_demo: "cleanJson ''Sure: {} done'' = ''{}''"
  by (simp add: cleanJson_def lastIndexOf_def substring_def)

theorem C5_rejected_payload_keeps_scene_witness:
  "payload_rejected demo_parse (Inr (Some ''Sure: {} done''))
   \<and> generateSceneFromPrompt demo_parse (\<lambda>v. ''x'') (\<lambda>i. ''r'') (Inr (Some ''Sure: {} done''))
       = \<lparr> result_text = JStr MSG_CORE_ERROR, result_data = None \<rparr>
   \<and> sceneData (handleSendMessage (\<lambda>k. k) ''make a box'' None
        (generateSceneFromPrompt demo_parse (\<lambda>v. ''x'') (\<lambda>i. ''r'') (Inr (Some ''Sure: {} done'')))
        \<lparr> sceneData = INITIAL_SCENE, history = [], isProcessing = False \<rparr>) = INITIAL_SCENE"
proof -
  have 1: "payload_rejected demo_parse (Inr (Some ''Sure: {} done''))"
    by (simp add: payload_rejected_def cleanJson_demo demo_parse_def has_nodes_array_def)
  note t = C5_rejected_payload_keeps_scene [OF 1, of "\<lambda>v. ''x''" "\<lambda>i. ''r''" "\<lambda>k. k"
      "''make a box''" None "\<lparr> sceneData = INITIAL_SCENE, history = [], isProcessing = False \<rparr>"]
  note a = conjunct1 [OF t]
  have b: "sceneData (handleSendMessage (\<lambda>k. k) ''make a box'' None
        (generateSceneFromPrompt demo_parse (\<lambda>v. ''x'') (\<lambda>i. ''r'') (Inr (Some ''Sure: {} done'')))
        \<lparr> sceneData = INITIAL_SCENE, history = [], isProcessing = False \<rparr>) = INITIAL_SCENE"
    using conjunct1 [OF conjunct2 [OF t]] by (simp only: app_state.select_convs)
  show ?thesis using 1 a b by (intro conjI)
qed

end
